theory Spec2Isabelle
  imports Complex_Main "HOL-Library.Sublist" "HOL-Library.Multiset"
begin

section \<open>Strings\<close>

text \<open>
  A string is the list of the bytes of its UTF-8 encoding. \<open>toLowerCase\<close> maps the letters
  \<open>A\<close> to \<open>Z\<close> to \<open>a\<close> to \<open>z\<close> and leaves every other byte alone, which is what the
  JavaScript method does on ASCII text. \<open>str_includes s c\<close> is \<open>s.includes(c)\<close>: \<open>c\<close> occurs in \<open>s\<close> as a
  contiguous run, starting at some position of \<open>s\<close>.
\<close>

definition toLowerChar :: "char \<Rightarrow> char" where
  "toLowerChar c =
     (case map_of (zip ''ABCDEFGHIJKLMNOPQRSTUVWXYZ'' ''abcdefghijklmnopqrstuvwxyz'') c of
        None \<Rightarrow> c
      | Some l \<Rightarrow> l)"

definition toLowerCase :: "string \<Rightarrow> string" where
  "toLowerCase s = map toLowerChar s"

fun str_includes :: "string \<Rightarrow> string \<Rightarrow> bool" where
  "str_includes [] c = (c = [])"
| "str_includes (x # xs) c = (prefix c (x # xs) \<or> str_includes xs c)"

section \<open>Weather suitability scoring (planParkVisit)\<close>

text \<open>
  Modelled from the spec: the type of a forecast day, declared in the weather service, which
  is not among the sources. The specification gives it as
  \<open>{date, minTempF, maxTempF, condition, chanceOfRain?}\<close>, with \<open>chanceOfRain\<close> optional;
  \<open>None\<close> is the absent field, which reads as \<open>undefined\<close>. Temperatures and the rain
  chance are JavaScript numbers, taken here as reals.
\<close>

record ForecastDay =
  date :: string
  minTempF :: real
  maxTempF :: real
  condition :: string
  chanceOfRain :: "real option"

text \<open>
  \<open>x < n\<close> where \<open>x\<close> may be \<open>undefined\<close>: the comparison converts \<open>undefined\<close> to
  \<open>NaN\<close>, and every comparison with \<open>NaN\<close> is false.
\<close>

definition js_lt :: "real option \<Rightarrow> real \<Rightarrow> bool" where
  "js_lt x n = (case x of None \<Rightarrow> False | Some v \<Rightarrow> v < n)"

definition goodConditions :: "string list" where
  "goodConditions = [''sunny'', ''clear'', ''partly cloudy'']"

text \<open>The three steps of the scoring algorithm, each adding to the running \<open>score\<close>.\<close>

definition addTemperature :: "ForecastDay \<Rightarrow> int \<Rightarrow> int" where
  "addTemperature day score =
     (let avgTemp = (maxTempF day + minTempF day) / 2
      in if avgTemp \<ge> 65 \<and> avgTemp \<le> 80 then score + 3
         else if avgTemp \<ge> 50 \<and> avgTemp \<le> 85 then score + 2
         else score + 1)"

definition addRain :: "ForecastDay \<Rightarrow> int \<Rightarrow> int" where
  "addRain day score =
     (if js_lt (chanceOfRain day) 20 then score + 3
      else if js_lt (chanceOfRain day) 40 then score + 2
      else if js_lt (chanceOfRain day) 60 then score + 1
      else score)"

definition addCondition :: "ForecastDay \<Rightarrow> int \<Rightarrow> int" where
  "addCondition day score =
     (if list_ex (\<lambda>c. str_includes (toLowerCase (condition day)) c) goodConditions
      then score + 2 else score)"

definition scoreDay :: "ForecastDay \<Rightarrow> int" where
  "scoreDay day = addCondition day (addRain day (addTemperature day 0))"

text \<open>
  The entry pushed for a day. The source renders \<open>conditions\<close> as text from the two
  temperatures, the condition and the rain chance; the model keeps these four values.
\<close>

record ScoredDay =
  date :: string
  score :: int
  conditions :: "real \<times> real \<times> string \<times> real option"

definition scoredDay :: "ForecastDay \<Rightarrow> ScoredDay" where
  "scoredDay day =
     \<lparr> date = ForecastDay.date day,
       score = scoreDay day,
       conditions = (minTempF day, maxTempF day, condition day, chanceOfRain day) \<rparr>"

text \<open>
  The loop over the detailed forecast; \<open>None\<close> is a forecast that is \<open>null\<close> or
  \<open>undefined\<close>, for which the guard leaves the list empty.
\<close>

definition scoreDays :: "ForecastDay list option \<Rightarrow> ScoredDay list" where
  "scoreDays detailedForecast =
     (case detailedForecast of
        None \<Rightarrow> []
      | Some days \<Rightarrow> if length days > 0 then map scoredDay days else [])"

text \<open>
  \<open>Array.prototype.sort\<close> with a comparator: a stable sort, an element staying in front of
  the elements it does not compare greater than. \<open>js_sort\<close> inserts the elements one by one,
  from the last to the first, each in front of the first element \<open>y\<close> with \<open>cmp x y \<le> 0\<close>.
\<close>

fun insertByCmp :: "('a \<Rightarrow> 'a \<Rightarrow> int) \<Rightarrow> 'a \<Rightarrow> 'a list \<Rightarrow> 'a list" where
  "insertByCmp cmp x [] = [x]"
| "insertByCmp cmp x (y # ys) =
     (if cmp x y \<le> 0 then x # y # ys else y # insertByCmp cmp x ys)"

definition js_sort :: "('a \<Rightarrow> 'a \<Rightarrow> int) \<Rightarrow> 'a list \<Rightarrow> 'a list" where
  "js_sort cmp xs = foldr (insertByCmp cmp) xs []"

definition goodWeatherDays :: "ForecastDay list option \<Rightarrow> ScoredDay list" where
  "goodWeatherDays detailedForecast =
     js_sort (\<lambda>a b. score b - score a) (scoreDays detailedForecast)"

section \<open>Closure alerts (planParkVisit)\<close>

text \<open>
  Modelled from the spec: the type of an alert, declared in the parks service, which is not
  among the sources; the filter reads the title and the category, the report the
  description.
\<close>

record Alert =
  title :: string
  description :: string
  category :: string

definition isClosureAlert :: "Alert \<Rightarrow> bool" where
  "isClosureAlert a =
     (str_includes (toLowerCase (title a)) ''closure'' \<or>
      str_includes (toLowerCase (title a)) ''closed'' \<or>
      str_includes (toLowerCase (category a)) ''closure'')"

definition closureAlerts :: "Alert list \<Rightarrow> Alert list" where
  "closureAlerts alerts = filter isClosureAlert alerts"

section \<open>Geocoding (NominatimGeocodingService)\<close>

text \<open>
  A JavaScript number as the geocoder produces it: \<open>NaN\<close>, an infinity, or a finite value.
  \<open>Number r\<close> stands for the double nearest to the real \<open>r\<close>: the rounding inside the
  range of the doubles is not computed, and a zero carries no sign.
\<close>

datatype jsnumber = NaN | PosInfinity | NegInfinity | Number real

text \<open>
  The white space that \<open>parseFloat\<close> skips, each character as its UTF-8 bytes: tab, line
  feed, vertical tab, form feed, carriage return, space, U+00A0, U+1680, U+2000 to U+200A,
  the line and paragraph separators U+2028 and U+2029, U+202F, U+205F, U+3000 and U+FEFF.
\<close>

definition whiteSpace :: "string list" where
  "whiteSpace =
     [[CHR 0x09], [CHR 0x0A], [CHR 0x0B], [CHR 0x0C], [CHR 0x0D], [CHR 0x20],
      [CHR 0xC2, CHR 0xA0],
      [CHR 0xE1, CHR 0x9A, CHR 0x80],
      [CHR 0xE2, CHR 0x80, CHR 0x80], [CHR 0xE2, CHR 0x80, CHR 0x81],
      [CHR 0xE2, CHR 0x80, CHR 0x82], [CHR 0xE2, CHR 0x80, CHR 0x83],
      [CHR 0xE2, CHR 0x80, CHR 0x84], [CHR 0xE2, CHR 0x80, CHR 0x85],
      [CHR 0xE2, CHR 0x80, CHR 0x86], [CHR 0xE2, CHR 0x80, CHR 0x87],
      [CHR 0xE2, CHR 0x80, CHR 0x88], [CHR 0xE2, CHR 0x80, CHR 0x89],
      [CHR 0xE2, CHR 0x80, CHR 0x8A],
      [CHR 0xE2, CHR 0x80, CHR 0xA8], [CHR 0xE2, CHR 0x80, CHR 0xA9],
      [CHR 0xE2, CHR 0x80, CHR 0xAF],
      [CHR 0xE2, CHR 0x81, CHR 0x9F],
      [CHR 0xE3, CHR 0x80, CHR 0x80],
      [CHR 0xEF, CHR 0xBB, CHR 0xBF]]"

text \<open>
  The number of bytes of the white space character a text starts with, 0 when it starts
  with none; \<open>trimStart\<close> removes the white space characters at the start of a text.
\<close>

definition whiteSpaceLength :: "string \<Rightarrow> nat" where
  "whiteSpaceLength s =
     (case find (\<lambda>w. prefix w s) whiteSpace of None \<Rightarrow> 0 | Some w \<Rightarrow> length w)"

fun trimStart :: "string \<Rightarrow> string" where
  "trimStart [] = []"
| "trimStart (c # cs) =
     (case whiteSpaceLength (c # cs) of
        0 \<Rightarrow> c # cs
      | Suc n \<Rightarrow> trimStart (drop n cs))"

definition isDigit :: "char \<Rightarrow> bool" where
  "isDigit c = (c \<in> set ''0123456789'')"

definition digitValue :: "char \<Rightarrow> nat" where
  "digitValue c =
     (case map_of (zip ''0123456789'' [0, 1, 2, 3, 4, 5, 6, 7, 8, 9]) c of
        None \<Rightarrow> 0
      | Some d \<Rightarrow> d)"

definition digitsValue :: "string \<Rightarrow> nat" where
  "digitsValue ds = foldl (\<lambda>n c. 10 * n + digitValue c) 0 ds"

text \<open>
  The exponent part that follows the mantissa: \<open>e\<close> or \<open>E\<close>, an optional sign and at
  least one digit. Anything else is not part of the literal, and the exponent is 0.
\<close>

definition exponentOf :: "string \<Rightarrow> int" where
  "exponentOf s =
     (case s of
        [] \<Rightarrow> 0
      | c # r \<Rightarrow>
          if c = CHR ''e'' \<or> c = CHR ''E'' then
            (case r of
               [] \<Rightarrow> 0
             | sign # ds \<Rightarrow>
                 if sign = CHR ''-'' then
                   (if takeWhile isDigit ds = [] then 0
                    else - int (digitsValue (takeWhile isDigit ds)))
                 else if sign = CHR ''+'' then
                   (if takeWhile isDigit ds = [] then 0
                    else int (digitsValue (takeWhile isDigit ds)))
                 else
                   (if takeWhile isDigit r = [] then 0
                    else int (digitsValue (takeWhile isDigit r))))
          else 0)"

text \<open>
  The value of the longest prefix that is an unsigned decimal literal (digits, an optional
  fraction, an optional exponent; at least one digit before or after the point), or
  \<open>None\<close> when no prefix is one.
\<close>

definition parseUnsigned :: "string \<Rightarrow> real option" where
  "parseUnsigned s =
     (let intPart = takeWhile isDigit s;
          rest = dropWhile isDigit s;
          hasPoint = (rest \<noteq> [] \<and> hd rest = CHR ''.'');
          fracPart = (if hasPoint then takeWhile isDigit (tl rest) else []);
          afterMantissa = (if hasPoint then dropWhile isDigit (tl rest) else rest)
      in if intPart = [] \<and> fracPart = [] then None
         else
           let mantissa = real (digitsValue (intPart @ fracPart)) / 10 ^ length fracPart;
               exponent = exponentOf afterMantissa
           in Some (if exponent \<ge> 0 then mantissa * 10 ^ nat exponent
                    else mantissa / 10 ^ nat (- exponent)))"

text \<open>
  The number for a magnitude read from a decimal literal and its sign. A magnitude of at
  least \<open>2^1024 - 2^970\<close>, half way between the largest double and \<open>2^1024\<close>, rounds to
  an infinity; one of at most \<open>2^-1075\<close>, half the smallest positive double, rounds to 0.
\<close>

definition roundedNumber :: "bool \<Rightarrow> real \<Rightarrow> jsnumber" where
  "roundedNumber negative v =
     (if v \<ge> 2 ^ 1024 - 2 ^ 970 then (if negative then NegInfinity else PosInfinity)
      else if v \<le> 1 / 2 ^ 1075 then Number 0
      else Number (if negative then - v else v))"

text \<open>
  \<open>parseFloat\<close>: leading white space is skipped, then the longest prefix that is a
  decimal literal is read; when there is none the result is \<open>NaN\<close>. No input makes it
  throw.
\<close>

definition parseFloat :: "string \<Rightarrow> jsnumber" where
  "parseFloat inputString =
     (let trimmed = trimStart inputString;
          negative = (trimmed \<noteq> [] \<and> hd trimmed = CHR ''-'');
          signed = (trimmed \<noteq> [] \<and> (hd trimmed = CHR ''-'' \<or> hd trimmed = CHR ''+''));
          unsigned = (if signed then tl trimmed else trimmed)
      in if prefix ''Infinity'' unsigned then (if negative then NegInfinity else PosInfinity)
         else
           (case parseUnsigned unsigned of
              None \<Rightarrow> NaN
            | Some v \<Rightarrow> roundedNumber negative v))"

text \<open>
  \<open>encodeURIComponent\<close> on the bytes of the text: letters, digits and
  \<open>- _ . ! ~ * ' ( )\<close> stay, every other byte becomes \<open>%\<close> and two upper-case hex digits.
\<close>

definition unreserved :: "string" where
  "unreserved =
     ''ABCDEFGHIJKLMNOPQRSTUVWXYZabcdefghijklmnopqrstuvwxyz0123456789-_.!~*()'' @ [CHR 0x27]"

definition hexDigit :: "nat \<Rightarrow> char" where
  "hexDigit n = ''0123456789ABCDEF'' ! (n mod 16)"

definition encodeChar :: "char \<Rightarrow> string" where
  "encodeChar c =
     (if c \<in> set unreserved then [c]
      else [CHR ''%'', hexDigit (of_char c div 16), hexDigit (of_char c)])"

definition encodeURIComponent :: "string \<Rightarrow> string" where
  "encodeURIComponent s = concat (map encodeChar s)"

text \<open>A thrown value; the tools read only its \<open>message\<close>.\<close>

datatype error = Error (message: string)

text \<open>One candidate of the provider's answer, with the three fields that are read.\<close>

record Candidate =
  lat :: string
  lon :: string
  display_name :: string

text \<open>
  The HTTP client: from the URL and the headers to the parsed answer, or a thrown error.
  The answer \<open>None\<close> is a body that is \<open>null\<close>.
\<close>

type_synonym HttpClient = "string \<Rightarrow> (string \<times> string) list \<Rightarrow> error + Candidate list option"

record GeocodingResult =
  latitude :: jsnumber
  longitude :: jsnumber
  displayName :: string
  confidence :: "real option"

definition baseUrl :: string where
  "baseUrl = ''https://nominatim.openstreetmap.org''"

definition searchUrl :: "string \<Rightarrow> string" where
  "searchUrl locationQuery =
     (let encodedQuery = encodeURIComponent locationQuery
      in baseUrl @ ''/search?q='' @ encodedQuery @ ''&format=json&limit=1'')"

definition headers :: "(string \<times> string) list" where
  "headers = [(''User-Agent'', ''NationalParksInfo/1.0''), (''Accept'', ''application/json'')]"

text \<open>
  The body of \<open>getCoordinates\<close> is one \<open>try\<close> block, whose handler logs the error and
  returns \<open>null\<close>; \<open>None\<close> is \<open>null\<close>.
\<close>

definition getCoordinates :: "HttpClient \<Rightarrow> string \<Rightarrow> GeocodingResult option" where
  "getCoordinates http locationQuery =
     (case http (searchUrl locationQuery) headers of
        Inl err \<Rightarrow> None
      | Inr response \<Rightarrow>
          (case response of
             None \<Rightarrow> None
           | Some [] \<Rightarrow> None
           | Some (result # others) \<Rightarrow>
               Some \<lparr> latitude = parseFloat (lat result),
                      longitude = parseFloat (lon result),
                      displayName = display_name result,
                      confidence = None \<rparr>))"

section \<open>Provider calls\<close>

text \<open>
  Modelled from the spec: the records of parks, facilities and trails, declared in the
  services, which are not among the sources. They have the fields the tools inspect. A
  field that the tools test before use is an option; \<open>truthy\<close> is the test \<open>if (x)\<close> on
  such a text field: present and not the empty string.
\<close>

definition truthy :: "string option \<Rightarrow> bool" where
  "truthy x = (case x of None \<Rightarrow> False | Some v \<Rightarrow> v \<noteq> [])"

record Park =
  name :: string
  parkCode :: "string option"
  description :: "string option"
  url :: "string option"

record Facility =
  facilityName :: string
  facilityDescription :: "string option"

text \<open>
  The \<open>trailUse\<close> field of a trail: missing, present but not an array, or an array of
  texts.
\<close>

datatype TrailUse = Missing | NotAnArray | UseArray "string list"

record Trail =
  name :: string
  description :: "string option"
  trailUse :: TrailUse

text \<open>
  The services are not among the sources either; they are parameters: each method is a
  function from its arguments to the value it resolves to, or to the error it throws.
  Page sizes and offsets are integers, the search radius is a real.
\<close>

record NpsApiService =
  searchParksByLocation :: "jsnumber \<Rightarrow> jsnumber \<Rightarrow> int \<Rightarrow> error + Park list"
  searchParks :: "string option \<Rightarrow> string option \<Rightarrow> int \<Rightarrow> int \<Rightarrow> error + Park list"
  getParksByActivity :: "string \<Rightarrow> error + Park list"
  getParks :: "int \<Rightarrow> int \<Rightarrow> error + Park list"

record RecGovService =
  getFacilitiesByLocation :: "jsnumber \<Rightarrow> jsnumber \<Rightarrow> real \<Rightarrow> error + Facility list"
  getTrailsByPark :: "string \<Rightarrow> error + Trail list"

record WeatherApiService =
  get7DayForecastByLocation :: "string \<Rightarrow> error + ForecastDay list option"

text \<open>
  A tool runs its awaited calls one after the other. The model threads the list of the
  calls made so far, oldest first, through the run; a run ends with a value or with a
  thrown error.
\<close>

datatype Call =
    GetCoordinates string
  | GetFacilitiesByLocation jsnumber jsnumber real
  | SearchParksByLocation jsnumber jsnumber int
  | GetTrailsByPark string
  | Get7DayForecastByLocation string
  | SearchParks "string option" "string option" int int
  | GetParksByActivity string
  | GetParks int int

type_synonym 'a io = "Call list \<Rightarrow> (error + 'a) \<times> Call list"

definition io_return :: "'a \<Rightarrow> 'a io" where
  "io_return x = (\<lambda>calls. (Inr x, calls))"

definition await :: "Call \<Rightarrow> error + 'a \<Rightarrow> 'a io" where
  "await c outcome = (\<lambda>calls. (outcome, calls @ [c]))"

definition io_bind :: "'a io \<Rightarrow> ('a \<Rightarrow> 'b io) \<Rightarrow> 'b io" where
  "io_bind m f =
     (\<lambda>calls. case m calls of
                 (Inl err, calls') \<Rightarrow> (Inl err, calls')
               | (Inr x, calls') \<Rightarrow> f x calls')"

definition io_catch :: "'a io \<Rightarrow> (error \<Rightarrow> 'a io) \<Rightarrow> 'a io" where
  "io_catch m handler =
     (\<lambda>calls. case m calls of
                 (Inl err, calls') \<Rightarrow> handler err calls'
               | (Inr x, calls') \<Rightarrow> (Inr x, calls'))"

section \<open>Recreation near a location (findNearbyRecreation)\<close>

text \<open>
  What a tool answers: a plain text, or the values from which its report is rendered,
  named as the variables of the source that hold them. The recreation report lists every
  park, and the first eight facilities and trails with a count of the rest; when the three
  lists are empty it says that nothing was found.
\<close>

record RecreationReport =
  forecast :: "ForecastDay list option"
  adjustedDistance :: real
  nearbyParks :: "Park list"
  filteredFacilities :: "Facility list"
  filteredTrails :: "Trail list"

datatype Reply =
    Text string
  | Recreation RecreationReport
  | ParkResults "Park list" "int option"

text \<open>The loop over the nearby parks, adding the trails of each park that has a code.\<close>

fun collectTrails :: "RecGovService \<Rightarrow> Park list \<Rightarrow> Trail list \<Rightarrow> Trail list io" where
  "collectTrails recGovService [] trails calls = (Inr trails, calls)"
| "collectTrails recGovService (park # rest) trails calls =
     (if truthy (parkCode park) then
        (case getTrailsByPark recGovService (the (parkCode park)) of
           Inl err \<Rightarrow> (Inl err, calls @ [GetTrailsByPark (the (parkCode park))])
         | Inr parkTrails \<Rightarrow>
             collectTrails recGovService rest (trails @ parkTrails)
               (calls @ [GetTrailsByPark (the (parkCode park))]))
      else collectTrails recGovService rest trails calls)"

definition facilityMatches :: "string \<Rightarrow> Facility \<Rightarrow> bool" where
  "facilityMatches activityType f =
     (let nameLower = toLowerCase (facilityName f);
          descLower = (if truthy (facilityDescription f)
                       then toLowerCase (the (facilityDescription f)) else [])
      in str_includes nameLower (toLowerCase activityType) \<or>
         str_includes descLower (toLowerCase activityType))"

definition trailMatches :: "string \<Rightarrow> Trail \<Rightarrow> bool" where
  "trailMatches activityType trail =
     (case trailUse trail of
        UseArray uses \<Rightarrow>
          list_ex (\<lambda>use. str_includes (toLowerCase use) (toLowerCase activityType)) uses
      | _ \<Rightarrow>
          (let nameLower = toLowerCase (Trail.name trail);
               descLower = (if truthy (Trail.description trail)
                            then toLowerCase (the (Trail.description trail)) else [])
           in str_includes nameLower (toLowerCase activityType) \<or>
              str_includes descLower (toLowerCase activityType)))"

definition filterFacilities :: "string option \<Rightarrow> Facility list \<Rightarrow> Facility list" where
  "filterFacilities activityType facilities =
     (if truthy activityType then filter (facilityMatches (the activityType)) facilities
      else facilities)"

definition filterTrails :: "string option \<Rightarrow> Trail list \<Rightarrow> Trail list" where
  "filterTrails activityType trails =
     (if truthy activityType \<and> length trails > 0
      then filter (trailMatches (the activityType)) trails else trails)"

definition findNearbyRecreation ::
  "HttpClient \<Rightarrow> NpsApiService \<Rightarrow> RecGovService \<Rightarrow> WeatherApiService \<Rightarrow>
   string \<Rightarrow> real \<Rightarrow> string option \<Rightarrow> bool \<Rightarrow> Reply io" where
  "findNearbyRecreation http npsService recGovService weatherService
       location distance activityType includeTrails =
     io_catch
       (io_bind (await (GetCoordinates location) (Inr (getCoordinates http location)))
          (\<lambda>coordinates.
             case coordinates of
               None \<Rightarrow>
                 io_return (Text (''Could not identify the location: '' @ location @
                   ''. Please try a more specific location name or provide coordinates.''))
             | Some c \<Rightarrow>
                 (let radius = (if distance < 25 then 25 else distance)
                  in io_bind
                       (await (GetFacilitiesByLocation (latitude c) (longitude c) radius)
                          (getFacilitiesByLocation recGovService
                             (latitude c) (longitude c) radius))
                  (\<lambda>facilities. io_bind
                       (await (SearchParksByLocation (latitude c) (longitude c) 5)
                          (searchParksByLocation npsService (latitude c) (longitude c) 5))
                  (\<lambda>parks. io_bind
                       (if includeTrails then collectTrails recGovService parks []
                        else io_return [])
                  (\<lambda>trails. io_bind
                       (await (Get7DayForecastByLocation location)
                          (get7DayForecastByLocation weatherService location))
                  (\<lambda>weather.
                     io_return (Recreation
                       \<lparr> forecast = weather,
                         adjustedDistance = radius,
                         nearbyParks = parks,
                         filteredFacilities = filterFacilities activityType facilities,
                         filteredTrails = filterTrails activityType trails \<rparr>))))))))
       (\<lambda>err. io_return (Text (''Error finding nearby recreation: '' @ message err)))"

section \<open>Park search (findParks)\<close>

text \<open>
  \<open>xs.slice(start, end)\<close>: a negative index counts from the end of the list, and both
  indices are clamped to the list.
\<close>

definition js_slice :: "'a list \<Rightarrow> int \<Rightarrow> int \<Rightarrow> 'a list" where
  "js_slice xs start end' =
     (let len = int (length xs);
          k = (if start < 0 then max (len + start) 0 else min start len);
          final = (if end' < 0 then max (len + end') 0 else min end' len)
      in take (nat (final - k)) (drop (nat k) xs))"

text \<open>
  The answer of \<open>findParks\<close> for the parks it has selected: the text for an empty list,
  or the listing with, when the page is full, the offset of the next page.
\<close>

definition parksReply :: "Park list \<Rightarrow> int \<Rightarrow> int \<Rightarrow> Reply" where
  "parksReply parks limit start =
     (if length parks = 0 then Text ''No parks found matching your criteria.''
      else ParkResults parks
             (if int (length parks) \<ge> limit then Some (start + limit) else None))"

definition findParks ::
  "NpsApiService \<Rightarrow> string option \<Rightarrow> string option \<Rightarrow> string option \<Rightarrow>
   int \<Rightarrow> int \<Rightarrow> Reply io" where
  "findParks npsService q stateCode activity limit start =
     io_catch
       (io_bind
          (if q \<noteq> None \<or> stateCode \<noteq> None then
             await (SearchParks q stateCode limit start)
               (searchParks npsService q stateCode limit start)
           else if truthy activity then
             io_bind
               (await (GetParksByActivity (the activity))
                  (getParksByActivity npsService (the activity)))
               (\<lambda>parks.
                  io_return (js_slice parks start (min (int (length parks)) (start + limit))))
           else
             await (GetParks limit start) (getParks npsService limit start))
          (\<lambda>parks. io_return (parksReply parks limit start)))
       (\<lambda>err. io_return (Text (''Error finding parks: '' @ message err)))"

section \<open>The specification's wording\<close>

text \<open>
  The notions the specification uses, written from its words, to be compared with the
  code above. A text contains a term case-insensitively when one of its contiguous runs
  equals the term up to the case of the letters.
\<close>

definition containsIgnoringCase :: "string \<Rightarrow> string \<Rightarrow> bool" where
  "containsIgnoringCase s c = (\<exists>u. sublist u s \<and> toLowerCase u = toLowerCase c)"

definition temperatureComponent :: "ForecastDay \<Rightarrow> int" where
  "temperatureComponent day =
     (let avg = (minTempF day + maxTempF day) / 2
      in if 65 \<le> avg \<and> avg \<le> 80 then 3 else if 50 \<le> avg \<and> avg \<le> 85 then 2 else 1)"

definition rainComponent :: "ForecastDay \<Rightarrow> int" where
  "rainComponent day =
     (if js_lt (chanceOfRain day) 20 then 3
      else if js_lt (chanceOfRain day) 40 then 2
      else if js_lt (chanceOfRain day) 60 then 1
      else 0)"

definition conditionComponent :: "ForecastDay \<Rightarrow> int" where
  "conditionComponent day =
     (if containsIgnoringCase (condition day) ''sunny'' \<or>
         containsIgnoringCase (condition day) ''clear'' \<or>
         containsIgnoringCase (condition day) ''partly cloudy''
      then 2 else 0)"

section \<open>Sample inputs\<close>

definition sunnyDay :: ForecastDay where
  "sunnyDay = \<lparr> ForecastDay.date = ''2025-06-01'', minTempF = 70, maxTempF = 78,
                condition = ''Sunny'', chanceOfRain = Some 10 \<rparr>"

definition sunnyDayNoRainChance :: ForecastDay where
  "sunnyDayNoRainChance =
     \<lparr> ForecastDay.date = ''2025-06-02'', minTempF = 70, maxTempF = 78,
       condition = ''Sunny'', chanceOfRain = None \<rparr>"

definition snowDay :: ForecastDay where
  "snowDay = \<lparr> ForecastDay.date = ''2025-06-03'', minTempF = 40, maxTempF = 45,
               condition = ''Snow'', chanceOfRain = Some 70 \<rparr>"

definition parkClosureAlert :: Alert where
  "parkClosureAlert =
     \<lparr> title = ''Road work on the scenic drive'', description = ''Expect delays.'',
       category = ''Park Closure'' \<rparr>"

definition wildlifeAlert :: Alert where
  "wildlifeAlert =
     \<lparr> title = ''Wildlife Advisory'', description = ''Bears are active.'',
       category = ''Safety'' \<rparr>"

definition mildDay :: ForecastDay where
  "mildDay = \<lparr> ForecastDay.date = ''2025-06-04'', minTempF = 70, maxTempF = 78,
               condition = ''Cloudy'', chanceOfRain = Some 30 \<rparr>"

definition moabCandidate :: Candidate where
  "moabCandidate =
     \<lparr> lat = ''38.5733'', lon = ''-109.5498'', display_name = ''Moab, Grand County, Utah'' \<rparr>"

definition garbledCandidate :: Candidate where
  "garbledCandidate = \<lparr> lat = ''abc'', lon = ''-109.5498'', display_name = ''Somewhere'' \<rparr>"

definition moabHttp :: HttpClient where
  "moabHttp address hdrs = Inr (Some [moabCandidate])"

definition failingHttp :: HttpClient where
  "failingHttp address hdrs = Inl (Error ''fetch failed'')"

definition garbledHttp :: HttpClient where
  "garbledHttp address hdrs = Inr (Some [garbledCandidate])"

definition moabResult :: GeocodingResult where
  "moabResult =
     \<lparr> latitude = Number 38.5733, longitude = Number (- 109.5498),
       displayName = ''Moab, Grand County, Utah'', confidence = None \<rparr>"

definition archesPark :: Park where
  "archesPark =
     \<lparr> Park.name = ''Arches National Park'', parkCode = Some ''arch'',
       Park.description = Some ''Red rock arches.'', url = None \<rparr>"

definition namedPark :: "string \<Rightarrow> Park" where
  "namedPark n = \<lparr> Park.name = n, parkCode = Some n, Park.description = None, url = None \<rparr>"

definition hikingParks :: "Park list" where
  "hikingParks =
     map namedPark [''p00'', ''p01'', ''p02'', ''p03'', ''p04'', ''p05'', ''p06'',
       ''p07'', ''p08'', ''p09'', ''p10'', ''p11'']"

definition campground :: Facility where
  "campground = \<lparr> facilityName = ''Devils Garden Campground'', facilityDescription = None \<rparr>"

definition unlabelledTrail :: Trail where
  "unlabelledTrail =
     \<lparr> Trail.name = ''Hiking loop'', Trail.description = Some ''A short hiking trail.'',
       trailUse = UseArray [] \<rparr>"

definition labelledTrail :: Trail where
  "labelledTrail =
     \<lparr> Trail.name = ''Park Avenue'', Trail.description = None,
       trailUse = UseArray [''Hiking'', ''Biking''] \<rparr>"

definition npsStub :: NpsApiService where
  "npsStub =
     \<lparr> searchParksByLocation = (\<lambda>la lo n. Inr [archesPark]),
       searchParks = (\<lambda>text state l st. Inr [archesPark]),
       getParksByActivity = (\<lambda>a. Inr hikingParks),
       getParks = (\<lambda>l st. Inr [archesPark]) \<rparr>"

definition recGovStub :: RecGovService where
  "recGovStub =
     \<lparr> getFacilitiesByLocation = (\<lambda>la lo r. Inr [campground]),
       getTrailsByPark = (\<lambda>code. Inr [unlabelledTrail, labelledTrail]) \<rparr>"

definition failingFacilities :: RecGovService where
  "failingFacilities =
     \<lparr> getFacilitiesByLocation = (\<lambda>la lo r. Inl (Error ''boom'')),
       getTrailsByPark = (\<lambda>code. Inr [unlabelledTrail, labelledTrail]) \<rparr>"

text \<open>A facilities provider that answers at one radius only and throws at every other.\<close>

definition onlyAtRadius :: "real \<Rightarrow> RecGovService" where
  "onlyAtRadius r0 =
     \<lparr> getFacilitiesByLocation =
         (\<lambda>la lo r. if r = r0 then Inr [campground] else Inl (Error ''wrong radius'')),
       getTrailsByPark = (\<lambda>code. Inr [unlabelledTrail, labelledTrail]) \<rparr>"

definition weatherStub :: WeatherApiService where
  "weatherStub = \<lparr> get7DayForecastByLocation = (\<lambda>l. Inr None) \<rparr>"

section \<open>Notions for the log of calls\<close>

text \<open>
  \<open>addsOnly P m\<close>: whatever calls were made before, the run \<open>m\<close> keeps them and adds
  only calls that satisfy \<open>P\<close>.
\<close>

definition isFacilitiesCall :: "Call \<Rightarrow> bool" where
  "isFacilitiesCall c = (case c of GetFacilitiesByLocation la lo r \<Rightarrow> True | _ \<Rightarrow> False)"

definition addsOnly :: "(Call \<Rightarrow> bool) \<Rightarrow> 'a io \<Rightarrow> bool" where
  "addsOnly P m = (\<forall>calls. \<exists>new. snd (m calls) = calls @ new \<and> list_all P new)"

section \<open>Case-insensitive search\<close>

lemmas score_defs = scoreDay_def addCondition_def addRain_def addTemperature_def js_lt_def
  goodConditions_def toLowerCase_def toLowerChar_def

lemma str_includes_sublist: "str_includes s c \<longleftrightarrow> sublist c s"
  by (induction s) (auto simp: sublist_Cons_right)

lemma sublist_map_iff: "sublist c (map f s) \<longleftrightarrow> (\<exists>u. sublist u s \<and> map f u = c)"
proof
  assume "sublist c (map f s)"
  then obtain pre suf where "map f s = pre @ c @ suf"
    by (auto simp: sublist_def)
  then obtain p r where pr: "s = p @ r" "map f r = c @ suf"
    by (metis map_eq_append_conv)
  then obtain u t where "r = u @ t" "map f u = c"
    by (metis map_eq_append_conv)
  with pr have "s = p @ u @ t" "map f u = c"
    by simp_all
  then show "\<exists>u. sublist u s \<and> map f u = c"
    by (auto simp: sublist_def)
next
  assume "\<exists>u. sublist u s \<and> map f u = c"
  then obtain u pre suf where "s = pre @ u @ suf" "map f u = c"
    by (auto simp: sublist_def)
  then have "map f s = map f pre @ c @ map f suf"
    by simp
  then show "sublist c (map f s)"
    unfolding sublist_def by blast
qed

lemma includes_lower_iff:
  "str_includes (toLowerCase s) (toLowerCase c) \<longleftrightarrow> containsIgnoringCase s c"
  unfolding containsIgnoringCase_def str_includes_sublist toLowerCase_def
  by (rule sublist_map_iff)

lemma lower_sunny: "toLowerCase ''sunny'' = ''sunny''"
  by (simp add: toLowerCase_def toLowerChar_def)

lemma lower_clear: "toLowerCase ''clear'' = ''clear''"
  by (simp add: toLowerCase_def toLowerChar_def)

lemma lower_partly_cloudy: "toLowerCase ''partly cloudy'' = ''partly cloudy''"
  by (simp add: toLowerCase_def toLowerChar_def)

lemma lower_closure: "toLowerCase ''closure'' = ''closure''"
  by (simp add: toLowerCase_def toLowerChar_def)

lemma lower_closed: "toLowerCase ''closed'' = ''closed''"
  by (simp add: toLowerCase_def toLowerChar_def)

section \<open>The score of a day\<close>

lemma addTemperature_spec: "addTemperature day s = s + temperatureComponent day"
  by (simp add: addTemperature_def temperatureComponent_def Let_def add.commute)

lemma addRain_spec: "addRain day s = s + rainComponent day"
  by (simp add: addRain_def rainComponent_def)

lemma addCondition_spec: "addCondition day s = s + conditionComponent day"
  unfolding addCondition_def conditionComponent_def goodConditions_def
  using includes_lower_iff[of "condition day" "''sunny''"]
    includes_lower_iff[of "condition day" "''clear''"]
    includes_lower_iff[of "condition day" "''partly cloudy''"]
  by (simp add: lower_sunny lower_clear lower_partly_cloudy)

lemma scoreDay_spec:
  "scoreDay day = temperatureComponent day + rainComponent day + conditionComponent day"
  by (simp add: scoreDay_def addCondition_spec addRain_spec addTemperature_spec)

lemma scoreDay_range: "1 \<le> scoreDay day \<and> scoreDay day \<le> 8"
  unfolding scoreDay_spec temperatureComponent_def rainComponent_def conditionComponent_def
  by (simp add: Let_def)

lemma js_sort_sort_key: "js_sort (\<lambda>a b. f b - f a) xs = sort_key (\<lambda>d. - f d) xs"
proof -
  have ins: "insertByCmp (\<lambda>a b. f b - f a) x ys = insort_key (\<lambda>d. - f d) x ys" for x ys
    by (induction ys) auto
  show ?thesis
    unfolding js_sort_def sort_key_def by (induction xs) (simp_all add: ins)
qed

lemma set_scoreDays: "set (scoreDays detailedForecast) \<subseteq> range scoredDay"
  by (auto simp: scoreDays_def split: option.splits)

lemma set_goodWeatherDays:
  "set (goodWeatherDays detailedForecast) = set (scoreDays detailedForecast)"
  by (simp add: goodWeatherDays_def js_sort_sort_key)

text \<open>
  Claim C2, as amended. A day whose \<open>chanceOfRain\<close> is absent falls in none of the rain
  buckets: the rain step leaves the running score as it is (a contribution of 0, not the
  3 of a rain chance of 0), and the day's score is its temperature component plus its
  condition component.
\<close>

theorem absent_rain_chance_adds_nothing:
  "chanceOfRain day = None \<Longrightarrow>
     addRain day s = s \<and> scoreDay day = temperatureComponent day + conditionComponent day"
  by (simp add: scoreDay_spec rainComponent_def addRain_def js_lt_def)

text \<open>The amended claim C2 at a sunny day of 70 to 78 degrees with no rain chance.\<close>

theorem absent_rain_chance_adds_nothing_witness:
  "chanceOfRain sunnyDayNoRainChance = None \<and> addRain sunnyDayNoRainChance 5 = 5 \<and>
   scoreDay sunnyDayNoRainChance = 5"
  using absent_rain_chance_adds_nothing[of sunnyDayNoRainChance 5]
  by (simp add: score_defs sunnyDayNoRainChance_def)

text \<open>
  Claim C2 as stated fails: for the sunny day with no rain chance the rain step adds 0,
  and the day scores 5, where the same day with a rain chance of 0 scores 8.
\<close>

theorem absent_rain_chance_not_zero:
  "addRain sunnyDayNoRainChance 0 = 0 \<and> scoreDay sunnyDayNoRainChance = 5 \<and>
   scoreDay (sunnyDayNoRainChance\<lparr>chanceOfRain := Some 0\<rparr>) = 8"
  by (simp add: score_defs sunnyDayNoRainChance_def)

text \<open>
  Claim C3. The scores pushed for the days of a forecast are, day by day, the sum of the
  temperature component, the rain component and the condition component of the
  specification; every score in the ranked list is an integer from 1 to 8; and the day
  \<open>{minTempF: 70, maxTempF: 78, condition: "Sunny", chanceOfRain: 10}\<close> scores 8.
\<close>

theorem score_is_sum_of_components_in_range:
  "map score (scoreDays (Some days)) =
     map (\<lambda>day. temperatureComponent day + rainComponent day + conditionComponent day) days
   \<and> (\<forall>d \<in> set (goodWeatherDays detailedForecast). 1 \<le> score d \<and> score d \<le> 8)
   \<and> scoreDay sunnyDay = 8"
proof (intro conjI ballI)
  show "map score (scoreDays (Some days)) =
     map (\<lambda>day. temperatureComponent day + rainComponent day + conditionComponent day) days"
    by (simp add: scoreDays_def scoredDay_def scoreDay_spec)
next
  fix d assume "d \<in> set (goodWeatherDays detailedForecast)"
  then obtain day where "d = scoredDay day"
    using set_scoreDays set_goodWeatherDays by blast
  then have "score d = scoreDay day"
    by (simp add: scoredDay_def)
  then show "1 \<le> score d" "score d \<le> 8"
    using scoreDay_range[of day] by simp_all
next
  show "scoreDay sunnyDay = 8"
    by (simp add: score_defs sunnyDay_def)
qed

text \<open>Claim C3 at the forecast of the sunny day followed by the snow day.\<close>

theorem score_is_sum_of_components_in_range_witness:
  "scoredDay snowDay \<in> set (goodWeatherDays (Some [sunnyDay, snowDay])) \<and>
   1 \<le> score (scoredDay snowDay) \<and> score (scoredDay snowDay) \<le> 8 \<and>
   map score (scoreDays (Some [sunnyDay, snowDay])) = [8, 1]"
  using score_is_sum_of_components_in_range[of "[sunnyDay, snowDay]" "Some [sunnyDay, snowDay]"]
  by (simp add: set_goodWeatherDays scoreDays_def scoredDay_def score_defs
      sunnyDay_def snowDay_def)

text \<open>
  Claim C4. The ranked list holds the scored days of the input, each once, in descending
  order of score, and for every score the days with that score stand in the ranked list
  in the order they have in the input: the sort is stable.
\<close>

theorem ranking_descending_and_stable:
  "sorted_wrt (\<lambda>a b. score a \<ge> score b) (goodWeatherDays detailedForecast)
   \<and> mset (goodWeatherDays detailedForecast) = mset (scoreDays detailedForecast)
   \<and> (\<forall>k. filter (\<lambda>d. score d = k) (goodWeatherDays detailedForecast) =
          filter (\<lambda>d. score d = k) (scoreDays detailedForecast))"
proof (intro conjI allI)
  let ?xs = "scoreDays detailedForecast"
  have "sorted (map (\<lambda>d. - score d) (sort_key (\<lambda>d. - score d) ?xs))"
    by (rule sorted_sort_key)
  then show "sorted_wrt (\<lambda>a b. score a \<ge> score b) (goodWeatherDays detailedForecast)"
    by (simp add: goodWeatherDays_def js_sort_sort_key sorted_map)
  show "mset (goodWeatherDays detailedForecast) = mset ?xs"
    by (simp add: goodWeatherDays_def js_sort_sort_key)
  fix k
  have "filter (\<lambda>d. - score d = - k) (sort_key (\<lambda>d. - score d) ?xs) =
        filter (\<lambda>d. - score d = - k) ?xs"
    by (rule sort_key_stable)
  then show "filter (\<lambda>d. score d = k) (goodWeatherDays detailedForecast) =
             filter (\<lambda>d. score d = k) ?xs"
    by (simp add: goodWeatherDays_def js_sort_sort_key)
qed

text \<open>
  Claim C4 at a forecast of four days scoring 1, 5, 8 and 5: the two days that score 5
  keep their order, June 2 before June 4.
\<close>

theorem ranking_descending_and_stable_witness:
  "map ScoredDay.date (goodWeatherDays (Some [snowDay, sunnyDayNoRainChance, sunnyDay, mildDay]))
     = [''2025-06-01'', ''2025-06-02'', ''2025-06-04'', ''2025-06-03''] \<and>
   filter (\<lambda>d. score d = 5)
       (goodWeatherDays (Some [snowDay, sunnyDayNoRainChance, sunnyDay, mildDay]))
     = [scoredDay sunnyDayNoRainChance, scoredDay mildDay]"
  using ranking_descending_and_stable
    [of "Some [snowDay, sunnyDayNoRainChance, sunnyDay, mildDay]"]
  by (simp add: goodWeatherDays_def js_sort_def scoreDays_def scoredDay_def score_defs
      snowDay_def sunnyDayNoRainChance_def sunnyDay_def mildDay_def)

section \<open>Closure alerts\<close>

text \<open>
  Claim C7. An alert is kept by the closure filter exactly when its title or its category
  contains \<open>closure\<close>, or its title contains \<open>closed\<close>, whatever the case of the letters.
  An alert of category \<open>Park Closure\<close> with an unrelated title is kept; the alert
  \<open>Wildlife Advisory\<close> of category \<open>Safety\<close> is not.
\<close>

theorem closure_alert_iff:
  "(isClosureAlert a \<longleftrightarrow>
      (containsIgnoringCase (title a) ''closure'' \<or>
       containsIgnoringCase (category a) ''closure'') \<or>
      containsIgnoringCase (title a) ''closed'')
   \<and> isClosureAlert parkClosureAlert \<and> \<not> isClosureAlert wildlifeAlert"
proof (intro conjI)
  show "isClosureAlert a \<longleftrightarrow>
      (containsIgnoringCase (title a) ''closure'' \<or>
       containsIgnoringCase (category a) ''closure'') \<or>
      containsIgnoringCase (title a) ''closed''"
    unfolding isClosureAlert_def
    using includes_lower_iff[of "title a" "''closure''"]
      includes_lower_iff[of "title a" "''closed''"]
      includes_lower_iff[of "category a" "''closure''"]
    by (auto simp: lower_closure lower_closed)
  show "isClosureAlert parkClosureAlert"
    by (simp add: isClosureAlert_def parkClosureAlert_def toLowerCase_def toLowerChar_def)
  show "\<not> isClosureAlert wildlifeAlert"
    by (simp add: isClosureAlert_def wildlifeAlert_def toLowerCase_def toLowerChar_def)
qed

section \<open>Geocoding\<close>

lemmas io_defs = io_return_def io_bind_def io_catch_def await_def

lemmas parse_defs = parseFloat_def parseUnsigned_def exponentOf_def roundedNumber_def
  whiteSpaceLength_def whiteSpace_def isDigit_def digitsValue_def digitValue_def

lemma parseFloat_empty: "trimStart s = [] \<Longrightarrow> parseFloat s = NaN"
  by (simp add: parseFloat_def parseUnsigned_def)

lemma parseFloat_no_literal:
  "trimStart s = c # rest \<Longrightarrow> c \<notin> set ''0123456789.+-I'' \<Longrightarrow> parseFloat s = NaN"
  by (auto simp: parseFloat_def parseUnsigned_def isDigit_def)

lemma moab_coordinates: "getCoordinates moabHttp ''Moab'' = Some moabResult"
  by (simp add: getCoordinates_def moabHttp_def moabCandidate_def moabResult_def parse_defs)

text \<open>
  Claim C8. When the call to the geocoding provider fails, \<open>getCoordinates\<close> returns the
  not-found outcome \<open>null\<close> instead of the error, the same outcome as for an answer with
  no candidate.
\<close>

theorem geocoding_failure_is_not_found:
  "http (searchUrl locationQuery) headers = Inl err \<Longrightarrow>
     getCoordinates http locationQuery = None \<and>
     getCoordinates http locationQuery =
       getCoordinates (\<lambda>address hdrs. Inr (Some [])) locationQuery"
  by (simp add: getCoordinates_def)

text \<open>Claim C8 at a client whose request for \<open>Moab, UT\<close> fails.\<close>

theorem geocoding_failure_is_not_found_witness:
  "failingHttp (searchUrl ''Moab, UT'') headers = Inl (Error ''fetch failed'') \<and>
   getCoordinates failingHttp ''Moab, UT'' = None \<and>
   getCoordinates failingHttp ''Moab, UT'' =
     getCoordinates (\<lambda>address hdrs. Inr (Some [])) ''Moab, UT''"
  using geocoding_failure_is_not_found[of failingHttp "''Moab, UT''" "Error ''fetch failed''"]
  by (simp add: failingHttp_def getCoordinates_def)

text \<open>
  Claim C9, as amended. When the provider answers with at least one candidate,
  \<open>getCoordinates\<close> returns the first candidate's latitude and longitude as \<open>parseFloat\<close>
  reads them, with its display name. A text that \<open>parseFloat\<close> cannot read is not an
  error: a latitude or longitude that, after its leading white space, is empty or starts
  with a character other than a digit, a point, a sign or \<open>I\<close> gives a result whose
  coordinate is \<open>NaN\<close>.
\<close>

theorem geocoding_first_candidate_parsed:
  "http (searchUrl locationQuery) headers = Inr (Some (result # others)) \<Longrightarrow>
     getCoordinates http locationQuery =
       Some \<lparr> latitude = parseFloat (lat result), longitude = parseFloat (lon result),
              displayName = display_name result, confidence = None \<rparr>
     \<and> (trimStart (lat result) = [] \<longrightarrow>
          map_option latitude (getCoordinates http locationQuery) = Some NaN)
     \<and> (\<forall>c rest. trimStart (lat result) = c # rest \<and> c \<notin> set ''0123456789.+-I''
          \<longrightarrow> map_option latitude (getCoordinates http locationQuery) = Some NaN)
     \<and> (trimStart (lon result) = [] \<longrightarrow>
          map_option longitude (getCoordinates http locationQuery) = Some NaN)
     \<and> (\<forall>c rest. trimStart (lon result) = c # rest \<and> c \<notin> set ''0123456789.+-I''
          \<longrightarrow> map_option longitude (getCoordinates http locationQuery) = Some NaN)"
  by (simp add: getCoordinates_def parseFloat_empty parseFloat_no_literal)

text \<open>The amended claim C9 at a provider whose candidate has the latitude \<open>abc\<close>.\<close>

theorem geocoding_first_candidate_parsed_witness:
  "garbledHttp (searchUrl ''Moab, UT'') headers = Inr (Some [garbledCandidate]) \<and>
   trimStart (lat garbledCandidate) = ''abc'' \<and>
   getCoordinates garbledHttp ''Moab, UT'' =
     Some \<lparr> latitude = NaN, longitude = Number (- 109.5498),
            displayName = ''Somewhere'', confidence = None \<rparr> \<and>
   map_option latitude (getCoordinates garbledHttp ''Moab, UT'') = Some NaN"
  using geocoding_first_candidate_parsed[of garbledHttp "''Moab, UT''" garbledCandidate "[]"]
  by (simp add: garbledHttp_def garbledCandidate_def parse_defs)

text \<open>
  Claim C9 as stated fails: for a candidate with the latitude \<open>abc\<close> the resolver
  returns a result, not an error, and the latitude of the result is \<open>NaN\<close>.
\<close>

theorem unparsable_latitude_is_NaN:
  "lat garbledCandidate = ''abc'' \<and>
   getCoordinates garbledHttp ''Moab, UT'' =
     Some \<lparr> latitude = NaN, longitude = Number (- 109.5498),
            displayName = ''Somewhere'', confidence = None \<rparr>"
  by (simp add: getCoordinates_def garbledHttp_def garbledCandidate_def parse_defs)

section \<open>The calls of findNearbyRecreation\<close>

lemma radius_max: "(if distance < 25 then 25 else distance) = max distance (25::real)"
  by (simp add: max_def)

lemma addsOnly_return: "addsOnly P (io_return x)"
  by (simp add: addsOnly_def io_return_def)

lemma addsOnly_await: "P c \<Longrightarrow> addsOnly P (await c outcome)"
  by (simp add: addsOnly_def await_def)

lemma addsOnly_bind:
  assumes m: "addsOnly P m" and f: "\<And>x. addsOnly P (f x)"
  shows "addsOnly P (io_bind m f)"
  unfolding addsOnly_def
proof
  fix calls
  obtain res calls' where mc: "m calls = (res, calls')"
    by (cases "m calls")
  with m obtain new where new: "calls' = calls @ new" "list_all P new"
    unfolding addsOnly_def by (metis snd_conv)
  show "\<exists>new. snd (io_bind m f calls) = calls @ new \<and> list_all P new"
  proof (cases res)
    case (Inl e)
    with mc new show ?thesis
      by (simp add: io_bind_def)
  next
    case (Inr x)
    from f[of x] obtain new' where "snd (f x calls') = calls' @ new'" "list_all P new'"
      unfolding addsOnly_def by blast
    with mc new Inr
    have "snd (io_bind m f calls) = calls @ (new @ new') \<and> list_all P (new @ new')"
      by (simp add: io_bind_def)
    then show ?thesis
      by blast
  qed
qed

lemma addsOnly_collectTrails:
  assumes "\<And>code. P (GetTrailsByPark code)"
  shows "addsOnly P (collectTrails recGovService ps ts)"
  unfolding addsOnly_def
proof (induction ps arbitrary: ts)
  case Nil
  show ?case
    by simp
next
  case (Cons park rest)
  show ?case
  proof
    fix calls
    let ?c = "GetTrailsByPark (the (parkCode park))"
    show "\<exists>new. snd (collectTrails recGovService (park # rest) ts calls) = calls @ new \<and>
            list_all P new"
    proof (cases "truthy (parkCode park)")
      case False
      then show ?thesis
        using Cons.IH[of ts] by simp
    next
      case True
      show ?thesis
      proof (cases "getTrailsByPark recGovService (the (parkCode park))")
        case (Inl e)
        then have "snd (collectTrails recGovService (park # rest) ts calls) = calls @ [?c] \<and>
            list_all P [?c]"
          using True assms by simp
        then show ?thesis
          by blast
      next
        case (Inr parkTrails)
        from Cons.IH[of "ts @ parkTrails"] obtain new where
          "snd (collectTrails recGovService rest (ts @ parkTrails) (calls @ [?c])) =
             (calls @ [?c]) @ new" "list_all P new"
          by blast
        then have "snd (collectTrails recGovService (park # rest) ts calls) =
            calls @ (?c # new) \<and> list_all P (?c # new)"
          using True Inr assms by simp
        then show ?thesis
          by blast
      qed
    qed
  qed
qed

lemma snd_catch_return: "snd (io_catch m (\<lambda>err. io_return (g err)) calls) = snd (m calls)"
  by (cases "m calls") (auto simp: io_catch_def io_return_def split: sum.splits)

lemma fst_catch_return: "\<exists>x. fst (io_catch m (\<lambda>err. io_return (g err)) calls) = Inr x"
  by (cases "m calls") (auto simp: io_catch_def io_return_def split: sum.splits)

lemma bind_await_Inr: "io_bind (await c (Inr x)) f calls = f x (calls @ [c])"
  by (simp add: io_bind_def await_def)

lemma bind_await_Inl: "io_bind (await c (Inl e)) f calls = (Inl e, calls @ [c])"
  by (simp add: io_bind_def await_def)

lemma findNearbyRecreation_calls:
  assumes "getCoordinates http location = Some c"
  shows "\<exists>later. snd (findNearbyRecreation http npsService recGovService weatherService location
             distance activityType includeTrails []) =
           [GetCoordinates location,
            GetFacilitiesByLocation (latitude c) (longitude c) (max distance 25)] @ later \<and>
           list_all (\<lambda>c. \<not> isFacilitiesCall c) later"
proof (cases "getFacilitiesByLocation recGovService (latitude c) (longitude c) (max distance 25)")
  case (Inl e)
  then show ?thesis
    using assms
    by (simp add: findNearbyRecreation_def snd_catch_return bind_await_Inr bind_await_Inl
        radius_max Let_def)
next
  case (Inr found)
  let ?rest = "\<lambda>facilities. io_bind
                       (await (SearchParksByLocation (latitude c) (longitude c) 5)
                          (searchParksByLocation npsService (latitude c) (longitude c) 5))
                  (\<lambda>parks. io_bind
                       (if includeTrails then collectTrails recGovService parks []
                        else io_return [])
                  (\<lambda>trails. io_bind
                       (await (Get7DayForecastByLocation location)
                          (get7DayForecastByLocation weatherService location))
                  (\<lambda>weather.
                     io_return (Recreation
                       \<lparr> forecast = weather,
                         adjustedDistance = max distance 25,
                         nearbyParks = parks,
                         filteredFacilities = filterFacilities activityType facilities,
                         filteredTrails = filterTrails activityType trails \<rparr>))))"
  have "addsOnly (\<lambda>c. \<not> isFacilitiesCall c) (?rest found)"
    by (intro addsOnly_bind addsOnly_await addsOnly_return)
       (auto simp: isFacilitiesCall_def intro!: addsOnly_collectTrails addsOnly_return)
  then obtain later where
    "snd (?rest found [GetCoordinates location,
            GetFacilitiesByLocation (latitude c) (longitude c) (max distance 25)]) =
       [GetCoordinates location,
            GetFacilitiesByLocation (latitude c) (longitude c) (max distance 25)] @ later"
    "list_all (\<lambda>c. \<not> isFacilitiesCall c) later"
    unfolding addsOnly_def by blast
  then show ?thesis
    using assms Inr
    by (simp add: findNearbyRecreation_def snd_catch_return bind_await_Inr radius_max Let_def)
qed

lemma collectTrails_cong:
  "getTrailsByPark other = getTrailsByPark recGovService \<Longrightarrow>
   collectTrails other ps ts calls = collectTrails recGovService ps ts calls"
  by (induction ps arbitrary: ts calls) (simp_all split: sum.splits)

lemma report_facilities:
  "getCoordinates http location = Some c \<Longrightarrow>
   getFacilitiesByLocation recGovService (latitude c) (longitude c) (max distance 25)
     = Inr found \<Longrightarrow>
   fst (findNearbyRecreation http npsService recGovService weatherService location distance
          activityType includeTrails []) = Inr (Recreation report) \<Longrightarrow>
   filteredFacilities report = filterFacilities activityType found \<and>
   adjustedDistance report = max distance 25"
  by (auto simp: findNearbyRecreation_def io_defs Let_def radius_max
      split: option.splits sum.splits prod.splits if_splits)

lemma report_trails:
  "fst (findNearbyRecreation http npsService recGovService weatherService location distance
          activityType includeTrails calls) = Inr (Recreation report) \<Longrightarrow>
   \<exists>trails. filteredTrails report = filterTrails activityType trails"
  by (auto simp: findNearbyRecreation_def io_defs Let_def
      split: option.splits sum.splits prod.splits if_splits)

text \<open>
  Claim C1, as amended. \<open>findNearbyRecreation\<close> never ends with a thrown error: it always
  returns a reply. But a provider query that throws ends the aggregation. When the
  facilities provider throws, the parks and trails providers are not queried and the
  reply is the single text \<open>Error finding nearby recreation: \<close> followed by the error's
  message; when the parks provider throws after the facilities were found, the reply
  is that text too. The reply then carries no collection of parks or facilities.
\<close>

theorem provider_failure_gives_error_text:
  "(\<exists>reply. fst (findNearbyRecreation http npsService recGovService weatherService location
        distance activityType includeTrails []) = Inr reply)
   \<and> (getCoordinates http location = Some c \<and>
       getFacilitiesByLocation recGovService (latitude c) (longitude c) (max distance 25)
         = Inl err \<longrightarrow>
       findNearbyRecreation http npsService recGovService weatherService location
           distance activityType includeTrails [] =
         (Inr (Text (''Error finding nearby recreation: '' @ message err)),
          [GetCoordinates location,
           GetFacilitiesByLocation (latitude c) (longitude c) (max distance 25)]))
   \<and> (getCoordinates http location = Some c \<and>
       getFacilitiesByLocation recGovService (latitude c) (longitude c) (max distance 25)
         = Inr found \<and>
       searchParksByLocation npsService (latitude c) (longitude c) 5 = Inl err \<longrightarrow>
       findNearbyRecreation http npsService recGovService weatherService location
           distance activityType includeTrails [] =
         (Inr (Text (''Error finding nearby recreation: '' @ message err)),
          [GetCoordinates location,
           GetFacilitiesByLocation (latitude c) (longitude c) (max distance 25),
           SearchParksByLocation (latitude c) (longitude c) 5]))"
proof (intro conjI impI)
  show "\<exists>reply. fst (findNearbyRecreation http npsService recGovService weatherService location
        distance activityType includeTrails []) = Inr reply"
    unfolding findNearbyRecreation_def by (rule fst_catch_return)
qed (simp_all add: findNearbyRecreation_def io_defs radius_max)

text \<open>
  The amended claim C1 at a request near Moab with radius 10, where the facilities
  provider throws \<open>boom\<close> and the parks provider would answer with one park.
\<close>

theorem provider_failure_gives_error_text_witness:
  "getCoordinates moabHttp ''Moab'' = Some moabResult \<and>
   getFacilitiesByLocation failingFacilities (latitude moabResult) (longitude moabResult)
     (max 10 25) = Inl (Error ''boom'') \<and>
   findNearbyRecreation moabHttp npsStub failingFacilities weatherStub ''Moab'' 10
       (Some ''hiking'') True [] =
     (Inr (Text ''Error finding nearby recreation: boom''),
      [GetCoordinates ''Moab'',
       GetFacilitiesByLocation (Number 38.5733) (Number (- 109.5498)) 25])"
  using provider_failure_gives_error_text[where http = moabHttp and location = "''Moab''"
      and c = moabResult and recGovService = failingFacilities and distance = 10
      and err = "Error ''boom''" and npsService = npsStub and weatherService = weatherStub
      and activityType = "Some ''hiking''" and includeTrails = True]
  by (simp add: moab_coordinates failingFacilities_def moabResult_def)

text \<open>
  Claim C1 as stated fails: with a facilities provider that throws and a parks provider
  that answers with one park, the reply is the error text, not a result with the park
  and an empty list of facilities, and the parks provider is never called.
\<close>

theorem facilities_failure_no_partial_result:
  "getFacilitiesByLocation failingFacilities (Number 38.5733) (Number (- 109.5498)) 50
     = Inl (Error ''boom'') \<and>
   searchParksByLocation npsStub (Number 38.5733) (Number (- 109.5498)) 5 = Inr [archesPark] \<and>
   findNearbyRecreation moabHttp npsStub failingFacilities weatherStub ''Moab'' 50 None True [] =
     (Inr (Text ''Error finding nearby recreation: boom''),
      [GetCoordinates ''Moab'',
       GetFacilitiesByLocation (Number 38.5733) (Number (- 109.5498)) 50])"
  by (simp add: findNearbyRecreation_def io_defs moab_coordinates moabResult_def npsStub_def
      failingFacilities_def)

text \<open>
  Claim C5. For a request with radius \<open>distance\<close> whose location is resolved, the facilities
  provider is queried at the resolved coordinates with the radius \<open>max distance 25\<close>. What
  the provider does at that radius decides the run: if it throws there, the reply is the
  error text with its message; if it answers there, the facilities of the report are
  filtered from that answer; and a provider that differs only at other radii gives the
  same run. The log holds the query with that radius and no facilities query with another
  radius. A request with radius 10 reads the provider at 25 and not at 10; a request with
  radius 40 reads it at 40.
\<close>

theorem facilities_radius_floor:
  "(getCoordinates http location = Some c \<longrightarrow>
      (getFacilitiesByLocation recGovService (latitude c) (longitude c) (max distance 25)
         = Inl err \<longrightarrow>
       fst (findNearbyRecreation http npsService recGovService weatherService location
              distance activityType includeTrails []) =
         Inr (Text (''Error finding nearby recreation: '' @ message err)))
      \<and> (getFacilitiesByLocation recGovService (latitude c) (longitude c) (max distance 25)
            = Inr found \<and>
          fst (findNearbyRecreation http npsService recGovService weatherService location
                 distance activityType includeTrails []) = Inr (Recreation report) \<longrightarrow>
          filteredFacilities report = filterFacilities activityType found \<and>
          adjustedDistance report = max distance 25)
      \<and> (getFacilitiesByLocation other (latitude c) (longitude c) (max distance 25) =
            getFacilitiesByLocation recGovService (latitude c) (longitude c) (max distance 25) \<and>
          getTrailsByPark other = getTrailsByPark recGovService \<longrightarrow>
          findNearbyRecreation http npsService other weatherService location
            distance activityType includeTrails [] =
          findNearbyRecreation http npsService recGovService weatherService location
            distance activityType includeTrails [])
      \<and> GetFacilitiesByLocation (latitude c) (longitude c) (max distance 25) \<in>
          set (snd (findNearbyRecreation http npsService recGovService weatherService location
                 distance activityType includeTrails [])))
   \<and> (\<forall>la lo r. GetFacilitiesByLocation la lo r \<in>
        set (snd (findNearbyRecreation http npsService recGovService weatherService location
             distance activityType includeTrails [])) \<longrightarrow> r = max distance 25)
   \<and> fst (findNearbyRecreation moabHttp npsStub (onlyAtRadius 25) weatherStub ''Moab'' 10
            None True []) =
       Inr (Recreation \<lparr> forecast = None, adjustedDistance = 25, nearbyParks = [archesPark],
              filteredFacilities = [campground],
              filteredTrails = [unlabelledTrail, labelledTrail] \<rparr>)
   \<and> fst (findNearbyRecreation moabHttp npsStub (onlyAtRadius 10) weatherStub ''Moab'' 10
            None True []) =
       Inr (Text ''Error finding nearby recreation: wrong radius'')
   \<and> fst (findNearbyRecreation moabHttp npsStub (onlyAtRadius 40) weatherStub ''Moab'' 40
            None True []) =
       Inr (Recreation \<lparr> forecast = None, adjustedDistance = 40, nearbyParks = [archesPark],
              filteredFacilities = [campground],
              filteredTrails = [unlabelledTrail, labelledTrail] \<rparr>)"
proof (intro conjI impI)
  assume geo: "getCoordinates http location = Some c"
  show "fst (findNearbyRecreation http npsService recGovService weatherService location
              distance activityType includeTrails []) =
         Inr (Text (''Error finding nearby recreation: '' @ message err))"
    if "getFacilitiesByLocation recGovService (latitude c) (longitude c) (max distance 25)
         = Inl err"
    using geo that by (simp add: findNearbyRecreation_def io_defs radius_max)
  show "filteredFacilities report = filterFacilities activityType found"
    and "adjustedDistance report = max distance 25"
    if "getFacilitiesByLocation recGovService (latitude c) (longitude c) (max distance 25)
            = Inr found \<and>
          fst (findNearbyRecreation http npsService recGovService weatherService location
                 distance activityType includeTrails []) = Inr (Recreation report)"
    using geo that report_facilities by blast+
  show "findNearbyRecreation http npsService other weatherService location
            distance activityType includeTrails [] =
          findNearbyRecreation http npsService recGovService weatherService location
            distance activityType includeTrails []"
    if same: "getFacilitiesByLocation other (latitude c) (longitude c) (max distance 25) =
            getFacilitiesByLocation recGovService (latitude c) (longitude c) (max distance 25) \<and>
          getTrailsByPark other = getTrailsByPark recGovService"
  proof -
    have trails_same: "collectTrails other = collectTrails recGovService"
    proof (intro ext)
      fix ps ts calls
      from same have "getTrailsByPark other = getTrailsByPark recGovService"
        by simp
      then show "collectTrails other ps ts calls = collectTrails recGovService ps ts calls"
        by (rule collectTrails_cong)
    qed
    show ?thesis
      unfolding findNearbyRecreation_def trails_same
      using geo same by (simp add: io_defs radius_max Let_def)
  qed
  from findNearbyRecreation_calls[OF geo, of npsService recGovService weatherService
      distance activityType includeTrails]
  show "GetFacilitiesByLocation (latitude c) (longitude c) (max distance 25) \<in>
          set (snd (findNearbyRecreation http npsService recGovService weatherService location
                 distance activityType includeTrails []))"
    by auto
next
  show "\<forall>la lo r. GetFacilitiesByLocation la lo r \<in>
        set (snd (findNearbyRecreation http npsService recGovService weatherService location
             distance activityType includeTrails [])) \<longrightarrow> r = max distance 25"
  proof (cases "getCoordinates http location")
    case None
    then show ?thesis
      by (simp add: findNearbyRecreation_def io_defs)
  next
    case (Some c')
    from findNearbyRecreation_calls[OF Some, of npsService recGovService weatherService
        distance activityType includeTrails]
    obtain later where
      "snd (findNearbyRecreation http npsService recGovService weatherService location
               distance activityType includeTrails []) =
             [GetCoordinates location,
              GetFacilitiesByLocation (latitude c') (longitude c') (max distance 25)] @ later"
      "list_all (\<lambda>c. \<not> isFacilitiesCall c) later"
      by blast
    then show ?thesis
      by (auto simp: list_all_iff isFacilitiesCall_def)
  qed
next
  show "fst (findNearbyRecreation moabHttp npsStub (onlyAtRadius 25) weatherStub ''Moab'' 10
            None True []) =
       Inr (Recreation \<lparr> forecast = None, adjustedDistance = 25, nearbyParks = [archesPark],
              filteredFacilities = [campground],
              filteredTrails = [unlabelledTrail, labelledTrail] \<rparr>)"
    by (simp add: findNearbyRecreation_def io_defs moab_coordinates moabResult_def npsStub_def
        onlyAtRadius_def weatherStub_def archesPark_def truthy_def filterFacilities_def
        filterTrails_def)
next
  show "fst (findNearbyRecreation moabHttp npsStub (onlyAtRadius 10) weatherStub ''Moab'' 10
            None True []) =
       Inr (Text ''Error finding nearby recreation: wrong radius'')"
    by (simp add: findNearbyRecreation_def io_defs moab_coordinates moabResult_def
        onlyAtRadius_def)
next
  show "fst (findNearbyRecreation moabHttp npsStub (onlyAtRadius 40) weatherStub ''Moab'' 40
            None True []) =
       Inr (Recreation \<lparr> forecast = None, adjustedDistance = 40, nearbyParks = [archesPark],
              filteredFacilities = [campground],
              filteredTrails = [unlabelledTrail, labelledTrail] \<rparr>)"
    by (simp add: findNearbyRecreation_def io_defs moab_coordinates moabResult_def npsStub_def
        onlyAtRadius_def weatherStub_def archesPark_def truthy_def filterFacilities_def
        filterTrails_def)
qed

text \<open>
  Claim C5 at a request near Moab with radius 10 and the provider that answers at radius
  25 only: the run gets the facilities, as it does with a provider that answers at every
  radius; the log holds the query with radius 25 and none with radius 10.
\<close>

theorem facilities_radius_floor_witness:
  "getCoordinates moabHttp ''Moab'' = Some moabResult \<and>
   getFacilitiesByLocation (onlyAtRadius 25) (latitude moabResult) (longitude moabResult)
     (max 10 25) = Inr [campground] \<and>
   getFacilitiesByLocation (onlyAtRadius 25) (latitude moabResult) (longitude moabResult) 10
     = Inl (Error ''wrong radius'') \<and>
   getFacilitiesByLocation recGovStub (latitude moabResult) (longitude moabResult) (max 10 25)
     = getFacilitiesByLocation (onlyAtRadius 25) (latitude moabResult) (longitude moabResult)
         (max 10 25) \<and>
   getTrailsByPark recGovStub = getTrailsByPark (onlyAtRadius 25) \<and>
   findNearbyRecreation moabHttp npsStub recGovStub weatherStub ''Moab'' 10 None True [] =
     findNearbyRecreation moabHttp npsStub (onlyAtRadius 25) weatherStub ''Moab'' 10 None True []
   \<and>
   findNearbyRecreation moabHttp npsStub (onlyAtRadius 25) weatherStub ''Moab'' 10 None True [] =
     (Inr (Recreation \<lparr> forecast = None, adjustedDistance = 25, nearbyParks = [archesPark],
              filteredFacilities = [campground],
              filteredTrails = [unlabelledTrail, labelledTrail] \<rparr>),
      [GetCoordinates ''Moab'',
       GetFacilitiesByLocation (Number 38.5733) (Number (- 109.5498)) 25,
       SearchParksByLocation (Number 38.5733) (Number (- 109.5498)) 5,
       GetTrailsByPark ''arch'',
       Get7DayForecastByLocation ''Moab'']) \<and>
   GetFacilitiesByLocation (Number 38.5733) (Number (- 109.5498)) 10 \<notin>
     set (snd (findNearbyRecreation moabHttp npsStub (onlyAtRadius 25) weatherStub ''Moab'' 10
            None True []))"
  using facilities_radius_floor[where http = moabHttp and location = "''Moab''"
      and c = moabResult and distance = 10 and npsService = npsStub
      and recGovService = "onlyAtRadius 25" and other = recGovStub
      and weatherService = weatherStub and activityType = None and includeTrails = True
      and found = "[campground]" and err = "Error ''wrong radius''"
      and report = "\<lparr> forecast = None, adjustedDistance = 25, nearbyParks = [archesPark],
              filteredFacilities = [campground],
              filteredTrails = [unlabelledTrail, labelledTrail] \<rparr>"]
  by (simp add: findNearbyRecreation_def io_defs moab_coordinates moabResult_def npsStub_def
      recGovStub_def onlyAtRadius_def weatherStub_def archesPark_def truthy_def
      filterFacilities_def filterTrails_def)

text \<open>
  Claim C10. In the activity filter for trails, a trail whose \<open>trailUse\<close> is an array is
  judged on that array alone, whatever its name and description; a trail whose
  \<open>trailUse\<close> is the empty array never matches; so when an activity type is supplied (the
  guard \<open>if (activityType ...)\<close> holds), no trail with an empty \<open>trailUse\<close> array is among
  the trails of the report.
\<close>

theorem empty_trailUse_excluded:
  "(trailUse trail = UseArray [] \<longrightarrow> \<not> trailMatches activity trail)
   \<and> (trailUse trail = UseArray uses \<longrightarrow>
        trailMatches activity (trail\<lparr>Trail.name := n, Trail.description := d\<rparr>) =
        trailMatches activity trail)
   \<and> (fst (findNearbyRecreation http npsService recGovService weatherService location distance
          activityType includeTrails calls) = Inr (Recreation report)
        \<and> truthy activityType \<and> trail \<in> set (filteredTrails report)
        \<longrightarrow> trailUse trail \<noteq> UseArray [])"
proof (intro conjI impI)
  show "\<not> trailMatches activity trail" if "trailUse trail = UseArray []"
    using that by (simp add: trailMatches_def)
  show "trailMatches activity (trail\<lparr>Trail.name := n, Trail.description := d\<rparr>) =
        trailMatches activity trail" if "trailUse trail = UseArray uses"
    using that by (simp add: trailMatches_def)
  assume a: "fst (findNearbyRecreation http npsService recGovService weatherService location
          distance activityType includeTrails calls) = Inr (Recreation report)
        \<and> truthy activityType \<and> trail \<in> set (filteredTrails report)"
  then obtain trails where "filteredTrails report = filterTrails activityType trails"
    using report_trails by blast
  with a have "trail \<in> set (filter (trailMatches (the activityType)) trails)"
    by (auto simp: filterTrails_def split: if_splits)
  then have "trailMatches (the activityType) trail"
    by simp
  then show "trailUse trail \<noteq> UseArray []"
    by (auto simp: trailMatches_def)
qed

text \<open>
  Claim C10 at a search for \<open>hiking\<close> near Moab: the trail \<open>Hiking loop\<close>, whose name
  contains the term and whose \<open>trailUse\<close> is the empty array, is left out of the report.
\<close>

theorem empty_trailUse_excluded_witness:
  "trailUse unlabelledTrail = UseArray [] \<and> \<not> trailMatches ''hiking'' unlabelledTrail \<and>
   str_includes (toLowerCase (Trail.name unlabelledTrail)) (toLowerCase ''hiking'') \<and>
   fst (findNearbyRecreation moabHttp npsStub recGovStub weatherStub ''Moab'' 50
          (Some ''hiking'') True []) =
     Inr (Recreation \<lparr> forecast = None, adjustedDistance = 50, nearbyParks = [archesPark],
            filteredFacilities = [], filteredTrails = [labelledTrail] \<rparr>)"
  using empty_trailUse_excluded[where trail = unlabelledTrail and activity = "''hiking''"
      and uses = "[]" and n = "''x''" and d = None and http = moabHttp
      and npsService = npsStub and recGovService = recGovStub
      and weatherService = weatherStub and location = "''Moab''" and distance = 50
      and activityType = "Some ''hiking''" and includeTrails = True and calls = "[]"]
  by (simp add: findNearbyRecreation_def io_defs moab_coordinates moabResult_def npsStub_def
      recGovStub_def weatherStub_def archesPark_def truthy_def unlabelledTrail_def
      labelledTrail_def campground_def filterTrails_def filterFacilities_def trailMatches_def
      facilityMatches_def toLowerCase_def toLowerChar_def)

section \<open>The dispatch of findParks\<close>

lemma js_slice_page:
  "0 \<le> start \<Longrightarrow> 0 \<le> limit \<Longrightarrow>
   js_slice ps start (min (int (length ps)) (start + limit)) =
     take (nat limit) (drop (nat start) ps)"
  by (auto simp: js_slice_def Let_def min_def max_def nat_diff_distrib nat_add_distrib)

lemma js_slice_out_of_range:
  "int (length ps) \<le> start \<Longrightarrow>
   js_slice ps start (min (int (length ps)) (start + limit)) = []"
  by (auto simp: js_slice_def Let_def min_def max_def)

text \<open>
  Claim C6. \<open>findParks\<close> makes one provider call, chosen by the first rule that applies.
  With \<open>q\<close> or \<open>stateCode\<close> present it calls the combined search with \<open>limit\<close> and
  \<open>start\<close> passed on, and answers with what the search found: the activity plays no part.
  Otherwise, with an activity present (a non-empty text), it fetches the parks of the
  activity and, for \<open>start\<close> and \<open>limit\<close> not negative, answers with the items from index
  \<open>start\<close> up to \<open>start + limit\<close>; a \<open>start\<close> at or past the end gives the empty selection
  and the no-parks text, not an error. Otherwise it calls the full listing with \<open>limit\<close>
  and \<open>start\<close>. On a 12-item activity result with \<open>limit = 5\<close> and \<open>start = 10\<close> the answer
  holds exactly the items at indices 10 and 11.
\<close>

theorem findParks_dispatch:
  "(q \<noteq> None \<or> stateCode \<noteq> None \<longrightarrow>
      searchParks npsService q stateCode limit start = Inr found \<longrightarrow>
      findParks npsService q stateCode activity limit start [] =
        (Inr (parksReply found limit start), [SearchParks q stateCode limit start]))
   \<and> (q = None \<and> stateCode = None \<and> truthy activity \<longrightarrow>
      getParksByActivity npsService (the activity) = Inr found \<longrightarrow>
      0 \<le> start \<and> 0 \<le> limit \<longrightarrow>
      findParks npsService q stateCode activity limit start [] =
        (Inr (parksReply (take (nat limit) (drop (nat start) found)) limit start),
         [GetParksByActivity (the activity)]))
   \<and> (q = None \<and> stateCode = None \<and> truthy activity \<longrightarrow>
      getParksByActivity npsService (the activity) = Inr found \<longrightarrow>
      int (length found) \<le> start \<longrightarrow>
      findParks npsService q stateCode activity limit start [] =
        (Inr (Text ''No parks found matching your criteria.''),
         [GetParksByActivity (the activity)]))
   \<and> (q = None \<and> stateCode = None \<and> \<not> truthy activity \<longrightarrow>
      getParks npsService limit start = Inr found \<longrightarrow>
      findParks npsService q stateCode activity limit start [] =
        (Inr (parksReply found limit start), [GetParks limit start]))
   \<and> findParks npsStub None None (Some ''hiking'') 5 10 [] =
        (Inr (ParkResults [namedPark ''p10'', namedPark ''p11''] None),
         [GetParksByActivity ''hiking''])"
proof (intro conjI impI)
  show "findParks npsService q stateCode activity limit start [] =
        (Inr (parksReply found limit start), [SearchParks q stateCode limit start])"
    if "q \<noteq> None \<or> stateCode \<noteq> None"
      "searchParks npsService q stateCode limit start = Inr found"
    using that by (auto simp: findParks_def io_defs)
  show "findParks npsService q stateCode activity limit start [] =
        (Inr (parksReply (take (nat limit) (drop (nat start) found)) limit start),
         [GetParksByActivity (the activity)])"
    if "q = None \<and> stateCode = None \<and> truthy activity"
      "getParksByActivity npsService (the activity) = Inr found" "0 \<le> start \<and> 0 \<le> limit"
    using that by (simp add: findParks_def io_defs js_slice_page)
  show "findParks npsService q stateCode activity limit start [] =
        (Inr (Text ''No parks found matching your criteria.''),
         [GetParksByActivity (the activity)])"
    if "q = None \<and> stateCode = None \<and> truthy activity"
      "getParksByActivity npsService (the activity) = Inr found" "int (length found) \<le> start"
    using that by (simp add: findParks_def io_defs js_slice_out_of_range parksReply_def)
  show "findParks npsService q stateCode activity limit start [] =
        (Inr (parksReply found limit start), [GetParks limit start])"
    if "q = None \<and> stateCode = None \<and> \<not> truthy activity"
      "getParks npsService limit start = Inr found"
    using that by (simp add: findParks_def io_defs)
  show "findParks npsStub None None (Some ''hiking'') 5 10 [] =
        (Inr (ParkResults [namedPark ''p10'', namedPark ''p11''] None),
         [GetParksByActivity ''hiking''])"
    by (simp add: findParks_def io_defs npsStub_def truthy_def hikingParks_def js_slice_def
        parksReply_def)
qed

text \<open>
  Claim C6 at four requests: a text query together with an activity (the activity is
  ignored), the activity \<open>hiking\<close> with \<open>start = 10\<close> and with \<open>start = 12\<close> on twelve
  parks, and no criterion at all.
\<close>

theorem findParks_dispatch_witness:
  "searchParks npsStub (Some ''arches'') None 5 0 = Inr [archesPark] \<and>
   findParks npsStub (Some ''arches'') None (Some ''hiking'') 5 0 [] =
     (Inr (ParkResults [archesPark] None), [SearchParks (Some ''arches'') None 5 0]) \<and>
   truthy (Some ''hiking'') \<and> getParksByActivity npsStub ''hiking'' = Inr hikingParks \<and>
   findParks npsStub None None (Some ''hiking'') 5 10 [] =
     (Inr (ParkResults [namedPark ''p10'', namedPark ''p11''] None),
      [GetParksByActivity ''hiking'']) \<and>
   findParks npsStub None None (Some ''hiking'') 5 12 [] =
     (Inr (Text ''No parks found matching your criteria.''), [GetParksByActivity ''hiking'']) \<and>
   \<not> truthy None \<and> getParks npsStub 5 0 = Inr [archesPark] \<and>
   findParks npsStub None None None 5 0 [] =
     (Inr (ParkResults [archesPark] None), [GetParks 5 0])"
  using findParks_dispatch[where q = "Some ''arches''" and stateCode = None
      and npsService = npsStub and limit = 5 and start = 0 and found = "[archesPark]"
      and activity = "Some ''hiking''"]
    findParks_dispatch[where q = None and stateCode = None and npsService = npsStub
      and limit = 5 and start = 12 and found = hikingParks and activity = "Some ''hiking''"]
    findParks_dispatch[where q = None and stateCode = None and npsService = npsStub
      and limit = 5 and start = 0 and found = "[archesPark]" and activity = None]
  by (simp add: npsStub_def truthy_def parksReply_def hikingParks_def)

end
